theory Spec2Isabelle
  imports Main "HOL-Library.AList" "HOL-Library.Char_ord" "HOL-Library.List_Lexorder"
begin

section \<open>The shard handler of controller.py\<close>

text \<open>
  The program keeps a text corpus in shard files \<^verbatim>\<open>data/<key>.txt\<close> and a catalog
  \<^verbatim>\<open>mapping.json\<close> from shard key to a record of two offsets. A key is the decimal
  string of a shard number (a primary) or \<^verbatim>\<open><number>-<index>\<close> (a replica).

  The embedding follows \<^verbatim>\<open>class ShardHandler\<close> method by method. What Python keeps on
  the object (\<^verbatim>\<open>self.mapping\<close>, \<^verbatim>\<open>self.last_char_position\<close>) and what it keeps on disk (the
  map file, the shard files) are the four fields of one state record that every method
  takes and returns. An exception is a value: a method that raises returns \<open>Inl\<close> of the
  exception and of the state as the statements executed before the raise left it.

  Python dictionaries keep insertion order, and \<^verbatim>\<open>sync_replication\<close> depends on it, so a
  dictionary is an association list: \<open>AList.update\<close> overwrites in place or appends, as
  \<^verbatim>\<open>dict.update\<close> does, and \<open>AList.delete\<close> is \<^verbatim>\<open>dict.pop\<close>. The shard files are an
  association list from key to content; the program never lists the directory, so the
  order of that list carries no meaning. The directory \<^verbatim>\<open>data\<close> itself is not modelled.
  Strings are lists of 8-bit characters, compared as Python compares them (by code point,
  a proper prefix first).
\<close>

subsection \<open>Python primitives\<close>

datatype error =
    ValueError | TypeError | KeyError | NameError | IndexError
  | ZeroDivisionError | FileNotFoundError | SameFileError

definition digit_of :: "nat \<Rightarrow> char" where
  "digit_of d = char_of (48 + d)"

definition is_digit :: "char \<Rightarrow> bool" where
  "is_digit c = (48 \<le> (of_char c :: nat) \<and> (of_char c :: nat) \<le> 57)"

definition digit_val :: "char \<Rightarrow> nat" where
  "digit_val c = of_char c - 48"

text \<open>\<^verbatim>\<open>str(n)\<close> of a non-negative integer.\<close>

fun py_str :: "nat \<Rightarrow> string" where
  "py_str n = (if n < 10 then [digit_of n] else py_str (n div 10) @ [digit_of (n mod 10)])"

declare py_str.simps [simp del]

text \<open>
  \<^verbatim>\<open>int(s)\<close> on the strings the program builds its keys from: a non-empty run of ASCII
  digits is the number it spells, anything else is a \<^verbatim>\<open>ValueError\<close>. (Python also reads a
  sign, surrounding blanks and underscores; the program never writes such a key.)
\<close>

definition py_int :: "string \<Rightarrow> error + nat" where
  "py_int s =
     (if s \<noteq> [] \<and> list_all is_digit s
      then Inr (foldl (\<lambda>a c. 10 * a + digit_val c) 0 s)
      else Inl ValueError)"

text \<open>\<^verbatim>\<open>s.split(c)\<close>: the pieces of \<open>s\<close> between the occurrences of \<open>c\<close>.\<close>

fun py_split :: "char \<Rightarrow> string \<Rightarrow> string list" where
  "py_split c [] = [[]]"
| "py_split c (x # xs) =
     (if x = c then [] # py_split c xs
      else (case py_split c xs of [] \<Rightarrow> [[x]] | w # ws \<Rightarrow> (x # w) # ws))"

text \<open>\<^verbatim>\<open>'-' in key\<close>.\<close>

definition has_dash :: "string \<Rightarrow> bool" where
  "has_dash key = (CHR ''-'' \<in> set key)"

text \<open>\<^verbatim>\<open>key[:key.index('-')]\<close>, which raises when there is no dash.\<close>

definition before_dash :: "string \<Rightarrow> error + string" where
  "before_dash key =
     (if has_dash key then Inr (takeWhile (\<lambda>c. c \<noteq> CHR ''-'') key) else Inl ValueError)"

text \<open>
  Slices \<^verbatim>\<open>xs[a:b]\<close> and \<^verbatim>\<open>xs[a:]\<close>: a negative index counts from the end, and both ends
  are clamped to the list.
\<close>

definition clamp_index :: "int \<Rightarrow> int \<Rightarrow> nat" where
  "clamp_index n i = (if i < 0 then nat (max 0 (n + i)) else nat (min n i))"

definition py_slice :: "'a list \<Rightarrow> int \<Rightarrow> int \<Rightarrow> 'a list" where
  "py_slice xs a b =
     drop (clamp_index (int (length xs)) a) (take (clamp_index (int (length xs)) b) xs)"

definition py_slice_from :: "'a list \<Rightarrow> int \<Rightarrow> 'a list" where
  "py_slice_from xs a = drop (clamp_index (int (length xs)) a) xs"

text \<open>\<^verbatim>\<open>range(count)\<close>.\<close>

definition py_range :: "int \<Rightarrow> int list" where
  "py_range count = map int [0 ..< nat count]"

text \<open>\<^verbatim>\<open>max(keys)\<close> of a list of numbers, a \<^verbatim>\<open>ValueError\<close> on the empty list.\<close>

definition py_max :: "nat list \<Rightarrow> error + nat" where
  "py_max ks = (case ks of [] \<Rightarrow> Inl ValueError | k # ks' \<Rightarrow> Inr (foldl max k ks'))"

text \<open>A list comprehension \<^verbatim>\<open>[f(x) for x in xs]\<close> whose \<open>f\<close> may raise.\<close>

fun map_err :: "('a \<Rightarrow> error + 'b) \<Rightarrow> 'a list \<Rightarrow> error + 'b list" where
  "map_err f [] = Inr []"
| "map_err f (x # xs) =
     (case f x of
        Inl e \<Rightarrow> Inl e
      | Inr y \<Rightarrow> (case map_err f xs of Inl e \<Rightarrow> Inl e | Inr ys \<Rightarrow> Inr (y # ys)))"

subsection \<open>The state\<close>

record shard_range =
  start :: int
  end' :: int

type_synonym catalog = "(string \<times> shard_range) list"

record state =
  mapping :: catalog
  mapfile :: "catalog option"
  files :: "(string \<times> string) list"
  last_char_position :: int

type_synonym outcome = "(error \<times> state) + state"

text \<open>\<^verbatim>\<open>write_map\<close> replaces the whole map file; \<^verbatim>\<open>load_map\<close> reads it, or gives the empty
  dictionary when there is none.\<close>

definition write_map :: "state \<Rightarrow> state" where
  "write_map s = s\<lparr>mapfile := Some (mapping s)\<rparr>"

definition load_map :: "state \<Rightarrow> catalog" where
  "load_map s = (case mapfile s of None \<Rightarrow> [] | Some m \<Rightarrow> m)"

definition reset_char_position :: "state \<Rightarrow> state" where
  "reset_char_position s = s\<lparr>last_char_position := 0\<rparr>"

definition get_shard_ids :: "state \<Rightarrow> string list" where
  "get_shard_ids s = sort (filter (\<lambda>key. \<not> has_dash key) (map fst (mapping s)))"

definition get_replication_ids :: "state \<Rightarrow> string list" where
  "get_replication_ids s = sort (filter has_dash (map fst (mapping s)))"

subsection \<open>Building the shards\<close>

definition generate_sharded_data :: "int \<Rightarrow> string \<Rightarrow> error + string list" where
  "generate_sharded_data count data =
     (if count = 0 then Inl ZeroDivisionError
      else
        let splicenum = int (length data) div count;
            rem = int (length data) mod count;
            result = map (\<lambda>z. py_slice data (splicenum * z) (splicenum * (z + 1)))
                         (py_range count)
        in if rem > 0
           then (if result = [] then Inl IndexError
                 else Inr (butlast result @ [last result @ py_slice_from data (- rem)]))
           else Inr result)"

definition write_shard_mapping :: "string \<Rightarrow> string \<Rightarrow> bool \<Rightarrow> state \<Rightarrow> outcome" where
  "write_shard_mapping num data replication s =
     (if replication then
        (case before_dash num of
           Inl e \<Rightarrow> Inl (e, s)
         | Inr parent \<Rightarrow>
             (case map_of (mapping s) parent of
                None \<Rightarrow> Inl (TypeError, s)
              | Some parent_shard \<Rightarrow>
                  Inr (s\<lparr>mapping := AList.update num
                           \<lparr>start = start parent_shard, end' = end' parent_shard\<rparr>
                           (mapping s)\<rparr>)))
      else
        (case py_int num of
           Inl e \<Rightarrow> Inl (e, s)
         | Inr n \<Rightarrow>
             let s1 = (if n = 0 then reset_char_position s else s);
                 pos = last_char_position s1
             in Inr (s1\<lparr>mapping := AList.update num
                          \<lparr>start = (if pos = 0 then pos else pos + 1),
                           end' = pos + int (length data)\<rparr>
                          (mapping s1),
                        last_char_position := pos + int (length data)\<rparr>)))"

definition write_shard :: "nat \<Rightarrow> string \<Rightarrow> state \<Rightarrow> outcome" where
  "write_shard num data s =
     write_shard_mapping (py_str num) data False
       (s\<lparr>files := AList.update (py_str num) data (files s)\<rparr>)"

text \<open>The loop \<^verbatim>\<open>for num, d in enumerate(spliced_data): self._write_shard(num, d)\<close>.\<close>

fun write_shards :: "nat \<Rightarrow> string list \<Rightarrow> state \<Rightarrow> outcome" where
  "write_shards num [] s = Inr s"
| "write_shards num (d # ds) s =
     (case write_shard num d s of
        Inl e \<Rightarrow> Inl e
      | Inr s' \<Rightarrow> write_shards (Suc num) ds s')"

text \<open>
  \<^verbatim>\<open>build_shards\<close> returns a message, and does nothing, when the catalog is not empty;
  \<open>Inl None\<close> is that return, \<open>Inl (Some e)\<close> an exception.
\<close>

definition build_shards :: "int \<Rightarrow> string \<Rightarrow> state \<Rightarrow> (error option \<times> state) + state" where
  "build_shards count data s =
     (if mapping s \<noteq> [] then Inl (None, s)
      else
        (case generate_sharded_data count data of
           Inl e \<Rightarrow> Inl (Some e, s)
         | Inr spliced_data \<Rightarrow>
             (case write_shards 0 spliced_data s of
                Inl (e, s') \<Rightarrow> Inl (Some e, s')
              | Inr s' \<Rightarrow> Inr (write_map s'))))"

text \<open>\<^verbatim>\<open>ShardHandler()\<close> in a directory with no map file and no shard file.\<close>

definition fresh :: state where
  "fresh = \<lparr>mapping = [], mapfile = None, files = [], last_char_position = 0\<rparr>"

text \<open>\<^verbatim>\<open>load_data_from_shards\<close>: the files of the primaries, in the order of
  \<^verbatim>\<open>get_shard_ids\<close>, joined.\<close>

definition read_file :: "state \<Rightarrow> string \<Rightarrow> error + string" where
  "read_file s key = (case map_of (files s) key of None \<Rightarrow> Inl FileNotFoundError | Some c \<Rightarrow> Inr c)"

definition load_data_from_shards :: "state \<Rightarrow> error + string" where
  "load_data_from_shards s =
     (case map_err (read_file s) (get_shard_ids s) of
        Inl e \<Rightarrow> Inl e
      | Inr result \<Rightarrow> Inr (concat result))"

subsection \<open>Reconciliation\<close>

text \<open>
  The dictionary \<^verbatim>\<open>files\<close> of \<^verbatim>\<open>sync_replication\<close>: for every primary id seen in the
  catalog, the keys of that id that have no file yet (\<^verbatim>\<open>all_keys\<close>, a Python set, here a
  list without repetitions), the key of the last file found (\<^verbatim>\<open>filename\<close>, the empty path
  when none was found, here \<open>None\<close>), and the highest replica index of that id.
\<close>

record group =
  all_keys :: "string list"
  filename :: "string option"
  max_rep :: nat

type_synonym groups = "(string \<times> group) list"

text \<open>The body of the first loop, after \<^verbatim>\<open>primary\<close> and \<^verbatim>\<open>secondary\<close> are known.\<close>

definition scan_key :: "(string \<times> string) list \<Rightarrow> string \<Rightarrow> string \<Rightarrow> nat \<Rightarrow> groups \<Rightarrow> groups" where
  "scan_key fs key primary secondary tbl =
     (let g0 = (case map_of tbl primary of
                  None \<Rightarrow> \<lparr>all_keys = [], filename = None, max_rep = secondary\<rparr>
                | Some g \<Rightarrow> g);
          g1 = g0\<lparr>all_keys := List.insert key (all_keys g0),
                  max_rep := max (max_rep g0) secondary\<rparr>;
          g2 = (if map_of fs key \<noteq> None
                then g1\<lparr>filename := Some key, all_keys := removeAll key (all_keys g1)\<rparr>
                else g1)
      in AList.update primary g2 tbl)"

fun sync_scan :: "(string \<times> string) list \<Rightarrow> string list \<Rightarrow> groups \<times> nat \<Rightarrow> error + groups \<times> nat" where
  "sync_scan fs [] acc = Inr acc"
| "sync_scan fs (key # keys) (tbl, mr) =
     (if has_dash key then
        (case py_split CHR ''-'' key of
           primary # sec # rest \<Rightarrow>
             (case py_int sec of
                Inl e \<Rightarrow> Inl e
              | Inr secondary \<Rightarrow>
                  sync_scan fs keys (scan_key fs key primary secondary tbl, max mr secondary))
         | _ \<Rightarrow> Inl IndexError)
      else sync_scan fs keys (scan_key fs key key 0 tbl, mr))"

text \<open>The second loop: the replica keys a primary is short of are added to the catalog,
  with the offsets of the primary, and to the keys to be written.\<close>

fun fill_group :: "string \<Rightarrow> nat list \<Rightarrow> group \<Rightarrow> state \<Rightarrow> (error \<times> state) + (group \<times> state)" where
  "fill_group primary [] g s = Inr (g, s)"
| "fill_group primary (secondary # rest) g s =
     (let num = primary @ ''-'' @ py_str secondary;
          g' = g\<lparr>all_keys := List.insert num (all_keys g)\<rparr>
      in case write_shard_mapping num [] True s of
           Inl e \<Rightarrow> Inl e
         | Inr s' \<Rightarrow> fill_group primary rest g' s')"

fun sync_fill :: "nat \<Rightarrow> groups \<Rightarrow> state \<Rightarrow> (error \<times> state) + (groups \<times> state)" where
  "sync_fill mr [] s = Inr ([], s)"
| "sync_fill mr ((primary, g) # tbl) s =
     (case fill_group primary [max_rep g + 1 ..< mr + 1] g s of
        Inl e \<Rightarrow> Inl e
      | Inr (g', s') \<Rightarrow>
          (case sync_fill mr tbl s' of
             Inl e \<Rightarrow> Inl e
           | Inr (tbl', s'') \<Rightarrow> Inr ((primary, g') # tbl', s'')))"

text \<open>\<^verbatim>\<open>shutil.copyfile\<close> between two shard files, each named by its key.\<close>

definition copyfile :: "string option \<Rightarrow> string \<Rightarrow> state \<Rightarrow> outcome" where
  "copyfile source destination s =
     (case source of
        None \<Rightarrow> Inl (FileNotFoundError, s)
      | Some src \<Rightarrow>
          (case map_of (files s) src of
             None \<Rightarrow> Inl (FileNotFoundError, s)
           | Some content \<Rightarrow>
               if src = destination then Inl (SameFileError, s)
               else Inr (s\<lparr>files := AList.update destination content (files s)\<rparr>)))"

fun copy_keys :: "string option \<Rightarrow> string list \<Rightarrow> state \<Rightarrow> outcome" where
  "copy_keys source [] s = Inr s"
| "copy_keys source (key # keys) s =
     (case copyfile source key s of
        Inl e \<Rightarrow> Inl e
      | Inr s' \<Rightarrow> copy_keys source keys s')"

fun sync_copy :: "groups \<Rightarrow> state \<Rightarrow> outcome" where
  "sync_copy [] s = Inr s"
| "sync_copy ((primary, g) # tbl) s =
     (case copy_keys (filename g) (all_keys g) s of
        Inl e \<Rightarrow> Inl e
      | Inr s' \<Rightarrow> sync_copy tbl s')"

definition sync_replication :: "state \<Rightarrow> outcome" where
  "sync_replication s =
     (let s0 = s\<lparr>mapping := load_map s\<rparr>
      in case sync_scan (files s0) (map fst (mapping s0)) ([], 0) of
           Inl e \<Rightarrow> Inl (e, s0)
         | Inr (tbl, mr) \<Rightarrow>
             (case sync_fill mr tbl s0 of
                Inl e \<Rightarrow> Inl e
              | Inr (tbl', s1) \<Rightarrow>
                  (case sync_copy tbl' s1 of
                     Inl e \<Rightarrow> Inl e
                   | Inr s2 \<Rightarrow> Inr (write_map s2))))"

subsection \<open>Adding and removing a shard\<close>

definition add_shard :: "state \<Rightarrow> outcome" where
  "add_shard s =
     (let s0 = s\<lparr>mapping := load_map s\<rparr>
      in case load_data_from_shards s0 of
           Inl e \<Rightarrow> Inl (e, s0)
         | Inr data \<Rightarrow>
             (case map_err py_int (get_shard_ids s0) of
                Inl e \<Rightarrow> Inl (e, s0)
              | Inr keys \<Rightarrow>
                  (case py_max (sort keys) of
                     Inl e \<Rightarrow> Inl (e, s0)
                   | Inr m \<Rightarrow>
                       (case generate_sharded_data (int m + 2) data of
                          Inl e \<Rightarrow> Inl (e, s0)
                        | Inr spliced_data \<Rightarrow>
                            (case write_shards 0 spliced_data s0 of
                               Inl e \<Rightarrow> Inl e
                             | Inr s1 \<Rightarrow> sync_replication (write_map s1))))))"

text \<open>\<^verbatim>\<open>key_.split('-')[0]\<close>.\<close>

definition first_piece :: "string \<Rightarrow> string" where
  "first_piece key = (case py_split CHR ''-'' key of [] \<Rightarrow> [] | p # ps \<Rightarrow> p)"

definition remove_shard :: "state \<Rightarrow> outcome" where
  "remove_shard s =
     (case load_data_from_shards s of
        Inl e \<Rightarrow> Inl (e, s)
      | Inr data \<Rightarrow>
          let s0 = s\<lparr>mapping := load_map s\<rparr>
          in case map_err (\<lambda>key. py_int (first_piece key)) (map fst (mapping s0)) of
               Inl e \<Rightarrow> Inl (e, s0)
             | Inr ns \<Rightarrow>
          (case py_max ns of
             Inl e \<Rightarrow> Inl (e, s0)
           | Inr max_key \<Rightarrow>
          (case map_of (mapping s0) (py_str max_key) of
             None \<Rightarrow> Inl (KeyError, s0)
           | Some end_shard \<Rightarrow>
          let s1 = s0\<lparr>mapping := AList.delete (py_str max_key) (mapping s0)\<rparr>
          in case map_err py_int (get_shard_ids s1) of
               Inl e \<Rightarrow> Inl (e, s1)
             | Inr keys \<Rightarrow>
          (case py_max (sort keys) of
             Inl e \<Rightarrow> Inl (e, s1)
           | Inr m \<Rightarrow>
          (case generate_sharded_data (int m + 1) data of
             Inl e \<Rightarrow> Inl (e, s1)
           | Inr spliced_data \<Rightarrow>
          (case map_of (files s1) (py_str max_key) of
             None \<Rightarrow> Inl (FileNotFoundError, s1)
           | Some old \<Rightarrow>
          let s2 = s1\<lparr>files := AList.delete (py_str max_key) (files s1)\<rparr>
          in case write_shards 0 spliced_data s2 of
               Inl e \<Rightarrow> Inl e
             | Inr s3 \<Rightarrow> sync_replication (write_map s3)))))))"

subsection \<open>Adding and removing a level of replication\<close>

text \<open>
  \<^verbatim>\<open>key_rep\<close>, a \<^verbatim>\<open>defaultdict(int)\<close> from shard number to its highest replica index,
  is computed by the same statements in \<^verbatim>\<open>add_replication\<close> and \<^verbatim>\<open>remove_replication\<close>.
\<close>

definition bump_rep :: "nat \<Rightarrow> nat \<Rightarrow> (nat \<times> nat) list \<Rightarrow> (nat \<times> nat) list" where
  "bump_rep i j key_rep =
     AList.update i (max (case map_of key_rep i of None \<Rightarrow> 0 | Some r \<Rightarrow> r) j) key_rep"

definition rep_pair :: "string \<Rightarrow> error + nat \<times> nat" where
  "rep_pair key =
     (case py_split CHR ''-'' key of
        [i, j] \<Rightarrow>
          (case py_int i of
             Inl e \<Rightarrow> Inl e
           | Inr a \<Rightarrow> (case py_int j of Inl e \<Rightarrow> Inl e | Inr b \<Rightarrow> Inr (a, b)))
      | _ \<Rightarrow> Inl ValueError)"

definition key_rep_of :: "state \<Rightarrow> error + (nat \<times> nat) list" where
  "key_rep_of s =
     (case map_err py_int (get_shard_ids s) of
        Inl e \<Rightarrow> Inl e
      | Inr keys \<Rightarrow>
          (case py_max (sort keys) of
             Inl e \<Rightarrow> Inl e
           | Inr shard_num \<Rightarrow>
               (case map_err rep_pair (get_replication_ids s) of
                  Inl e \<Rightarrow> Inl e
                | Inr pairs \<Rightarrow>
                    Inr (foldl (\<lambda>key_rep (i, j). bump_rep i j key_rep)
                           (foldl (\<lambda>key_rep keyi. bump_rep keyi 0 key_rep) [] (sort keys))
                           pairs))))"

fun add_level :: "(nat \<times> nat) list \<Rightarrow> string \<Rightarrow> state \<Rightarrow> outcome" where
  "add_level [] data s = Inr s"
| "add_level ((key, rep) # key_rep) data s =
     (case write_shard_mapping (py_str key @ ''-'' @ py_str (rep + 1)) data True s of
        Inl e \<Rightarrow> Inl e
      | Inr s' \<Rightarrow> add_level key_rep data s')"

text \<open>The loop over the catalog that opens every replica file for writing and copies
  the file of its primary into it.\<close>

fun copy_replicas :: "string list \<Rightarrow> state \<Rightarrow> outcome" where
  "copy_replicas [] s = Inr s"
| "copy_replicas (key # keys) s =
     (if has_dash key then
        (case copyfile (Some (takeWhile (\<lambda>c. c \<noteq> CHR ''-'') key)) key
                (s\<lparr>files := AList.update key [] (files s)\<rparr>) of
           Inl e \<Rightarrow> Inl e
         | Inr s' \<Rightarrow> copy_replicas keys s')
      else copy_replicas keys s)"

definition add_replication :: "state \<Rightarrow> outcome" where
  "add_replication s =
     (let s0 = s\<lparr>mapping := load_map s\<rparr>
      in case key_rep_of s0 of
           Inl e \<Rightarrow> Inl (e, s0)
         | Inr key_rep \<Rightarrow>
             (case load_data_from_shards s0 of
                Inl e \<Rightarrow> Inl (e, s0)
              | Inr data \<Rightarrow>
                  (case add_level key_rep data s0 of
                     Inl e \<Rightarrow> Inl e
                   | Inr s1 \<Rightarrow>
                       (case copy_replicas (map fst (mapping s1)) s1 of
                          Inl e \<Rightarrow> Inl e
                        | Inr s2 \<Rightarrow> sync_replication (write_map s2)))))"

fun remove_level :: "(nat \<times> nat) list \<Rightarrow> state \<Rightarrow> outcome" where
  "remove_level [] s = Inr s"
| "remove_level ((key, rep) # key_rep) s =
     (if rep \<noteq> 0 then
        (let shard = py_str key @ ''-'' @ py_str rep
         in case map_of (files s) shard of
              None \<Rightarrow> Inl (FileNotFoundError, s)
            | Some content \<Rightarrow>
                (let s1 = s\<lparr>files := AList.delete shard (files s)\<rparr>
                 in case map_of (mapping s1) shard of
                      None \<Rightarrow> Inl (KeyError, s1)
                    | Some r \<Rightarrow>
                        remove_level key_rep
                          (s1\<lparr>mapping := AList.delete shard (mapping s1)\<rparr>)))
      else Inl (NameError, s))"

definition remove_replication :: "state \<Rightarrow> outcome" where
  "remove_replication s =
     (let s0 = s\<lparr>mapping := load_map s\<rparr>
      in case key_rep_of s0 of
           Inl e \<Rightarrow> Inl (e, s0)
         | Inr key_rep \<Rightarrow>
             (case remove_level key_rep s0 of
                Inl e \<Rightarrow> Inl e
              | Inr s1 \<Rightarrow> sync_replication (write_map s1)))"

subsection \<open>Queries\<close>

text \<open>
  \<^verbatim>\<open>get_shard_data\<close> returns the whole catalog when it is given no key (or the empty
  string), and otherwise one of two formatted messages; the three results are the three
  constructors, each carrying what the Python value is built from.
\<close>

datatype response =
    AllShardData catalog
  | InvalidShardId "string list"
  | ShardInfo string shard_range

definition get_all_shard_data :: "state \<Rightarrow> catalog" where
  "get_all_shard_data s = mapping s"

definition get_shard_data :: "string option \<Rightarrow> state \<Rightarrow> response" where
  "get_shard_data shardnum s =
     (case shardnum of
        None \<Rightarrow> AllShardData (get_all_shard_data s)
      | Some key \<Rightarrow>
          if key = [] then AllShardData (get_all_shard_data s)
          else (case map_of (mapping s) key of
                  None \<Rightarrow> InvalidShardId (get_shard_ids s)
                | Some data \<Rightarrow> ShardInfo key data))"

subsection \<open>Notions used by the properties\<close>

text \<open>The state a method leaves behind, whether it returned or raised.\<close>

definition state_after :: "outcome \<Rightarrow> state" where
  "state_after r = (case r of Inl (e, s) \<Rightarrow> s | Inr s \<Rightarrow> s)"

text \<open>Running a method on the state another one returned.\<close>

definition and_then :: "outcome \<Rightarrow> (state \<Rightarrow> outcome) \<Rightarrow> outcome" where
  "and_then r f = (case r of Inl x \<Rightarrow> Inl x | Inr s \<Rightarrow> f s)"

text \<open>\<^verbatim>\<open>build_shards\<close> on the fresh state, as an outcome (the early return cannot happen
  there, the catalog being empty).\<close>

definition build_fresh :: "int \<Rightarrow> string \<Rightarrow> outcome" where
  "build_fresh count data =
     (case build_shards count data fresh of
        Inl (e, s) \<Rightarrow> Inl (case e of None \<Rightarrow> ValueError | Some x \<Rightarrow> x, s)
      | Inr s \<Rightarrow> Inr s)"

text \<open>The content of the file of a key (empty when there is none), and the files of the
  primaries \<open>0, \<dots>, count - 1\<close> joined in the order of their numbers.\<close>

definition content_of :: "state \<Rightarrow> string \<Rightarrow> string" where
  "content_of s key = (case map_of (files s) key of None \<Rightarrow> [] | Some c \<Rightarrow> c)"

definition primaries_in_id_order :: "nat \<Rightarrow> state \<Rightarrow> string" where
  "primaries_in_id_order count s = concat (map (\<lambda>i. content_of s (py_str i)) [0 ..< count])"

text \<open>Two shards of \<^verbatim>\<open>abcd\<close> with one level of replication.\<close>

definition two_replicated :: state where
  "two_replicated =
     \<lparr>mapping = [(''0'', \<lparr>start = 0, end' = 2\<rparr>), (''1'', \<lparr>start = 3, end' = 4\<rparr>),
                 (''0-1'', \<lparr>start = 0, end' = 2\<rparr>), (''1-1'', \<lparr>start = 3, end' = 4\<rparr>)],
      mapfile = Some [(''0'', \<lparr>start = 0, end' = 2\<rparr>), (''1'', \<lparr>start = 3, end' = 4\<rparr>),
                      (''0-1'', \<lparr>start = 0, end' = 2\<rparr>), (''1-1'', \<lparr>start = 3, end' = 4\<rparr>)],
      files = [(''0'', ''ab''), (''1'', ''cd''), (''0-1'', ''ab''), (''1-1'', ''cd'')],
      last_char_position = 4\<rparr>"

text \<open>The same two shards where only shard 0 has a replica.\<close>

definition one_behind :: state where
  "one_behind =
     \<lparr>mapping = [(''0'', \<lparr>start = 0, end' = 2\<rparr>), (''1'', \<lparr>start = 3, end' = 4\<rparr>),
                 (''0-1'', \<lparr>start = 0, end' = 2\<rparr>)],
      mapfile = Some [(''0'', \<lparr>start = 0, end' = 2\<rparr>), (''1'', \<lparr>start = 3, end' = 4\<rparr>),
                      (''0-1'', \<lparr>start = 0, end' = 2\<rparr>)],
      files = [(''0'', ''ab''), (''1'', ''cd''), (''0-1'', ''ab'')],
      last_char_position = 4\<rparr>"

text \<open>Whether a method returned rather than raised.\<close>

definition returned :: "outcome \<Rightarrow> bool" where
  "returned r = (case r of Inl x \<Rightarrow> False | Inr s \<Rightarrow> True)"

text \<open>The state after \<^verbatim>\<open>build_shards(2, "abcd")\<close>, \<^verbatim>\<open>add_replication()\<close> and
  \<^verbatim>\<open>add_shard()\<close>.\<close>

definition stale_replicas :: state where
  "stale_replicas =
     \<lparr>mapping = [(''0'', \<lparr>start = 0, end' = 1\<rparr>), (''1'', \<lparr>start = 2, end' = 2\<rparr>),
                 (''0-1'', \<lparr>start = 0, end' = 2\<rparr>), (''1-1'', \<lparr>start = 3, end' = 4\<rparr>),
                 (''2'', \<lparr>start = 3, end' = 4\<rparr>), (''2-1'', \<lparr>start = 3, end' = 4\<rparr>)],
      mapfile = Some [(''0'', \<lparr>start = 0, end' = 1\<rparr>), (''1'', \<lparr>start = 2, end' = 2\<rparr>),
                 (''0-1'', \<lparr>start = 0, end' = 2\<rparr>), (''1-1'', \<lparr>start = 3, end' = 4\<rparr>),
                 (''2'', \<lparr>start = 3, end' = 4\<rparr>), (''2-1'', \<lparr>start = 3, end' = 4\<rparr>)],
      files = [(''0'', ''a''), (''1'', ''b''), (''0-1'', ''ab''), (''1-1'', ''cd''),
               (''2'', ''cd''), (''2-1'', ''cd'')],
      last_char_position = 4\<rparr>"

text \<open>The state after \<^verbatim>\<open>build_shards(2, "abcd")\<close>, \<^verbatim>\<open>add_replication()\<close> and
  \<^verbatim>\<open>remove_shard()\<close>.\<close>

definition orphaned :: state where
  "orphaned =
     \<lparr>mapping = [(''0'', \<lparr>start = 0, end' = 4\<rparr>), (''0-1'', \<lparr>start = 0, end' = 2\<rparr>),
                 (''1-1'', \<lparr>start = 3, end' = 4\<rparr>)],
      mapfile = Some [(''0'', \<lparr>start = 0, end' = 4\<rparr>), (''0-1'', \<lparr>start = 0, end' = 2\<rparr>),
                      (''1-1'', \<lparr>start = 3, end' = 4\<rparr>)],
      files = [(''0'', ''abcd''), (''0-1'', ''ab''), (''1-1'', ''cd'')],
      last_char_position = 4\<rparr>"

section \<open>Properties\<close>

subsection \<open>The partition\<close>

lemma py_slice_nat: "py_slice xs (int a) (int b) = drop a (take b xs)"
  by (simp add: py_slice_def clamp_index_def min_def)

lemma concat_slices:
  "concat (map (\<lambda>z. drop (q * z) (take (q * Suc z) xs)) [0 ..< k]) = take (q * k) xs"
proof (induction k)
  case 0
  then show ?case by simp
next
  case (Suc k)
  have "take (q * k) xs @ drop (q * k) (take (q * k + q) xs) = take (q * k + q) xs"
    by (metis take_add drop_take add_diff_cancel_left')
  with Suc show ?case by (simp add: add.commute)
qed

lemma slices_as_nat:
  "map (\<lambda>z. py_slice data (int q * z) (int q * (z + 1))) (py_range (int c))
     = map (\<lambda>z. drop (q * z) (take (q * Suc z) data)) [0 ..< c]"
proof -
  have "py_slice data (int q * int z) (int q * (int z + 1)) = drop (q * z) (take (q * Suc z) data)"
    for z
    using py_slice_nat [of data "q * z" "q * Suc z"] by (simp add: algebra_simps)
  then show ?thesis by (simp add: py_range_def comp_def)
qed

text \<open>
  Claim C4. For every \<open>data\<close> and every \<open>count \<ge> 1\<close>, \<^verbatim>\<open>_generate_sharded_data\<close> returns
  (it does not raise), it returns exactly \<open>count\<close> segments, and the segments joined in
  order are \<open>data\<close>. Nothing is assumed about the length of \<open>data\<close>: a count larger than
  the length and a remainder of zero are covered.
\<close>

theorem generate_sharded_data_round_trip:
  assumes "1 \<le> count"
  shows "\<exists>result. generate_sharded_data count data = Inr result
            \<and> int (length result) = count \<and> concat result = data"
proof -
  define c where "c = nat count"
  define n where "n = length data"
  define q where "q = n div c"
  define r where "r = n mod c"
  define result where "result = map (\<lambda>z. drop (q * z) (take (q * Suc z) data)) [0 ..< c]"
  from assms have count: "count = int c" and c: "0 < c" by (simp_all add: c_def)
  have dv: "int (length data) div int c = int q" and md: "int (length data) mod int c = int r"
    by (simp_all add: q_def r_def n_def zdiv_int zmod_int)
  have res: "map (\<lambda>z. py_slice data (int q * z) (int q * (z + 1))) (py_range (int c)) = result"
    unfolding result_def by (rule slices_as_nat)
  have len: "length result = c" by (simp add: result_def)
  have cat: "concat result = take (q * c) data" unfolding result_def by (rule concat_slices)
  have qc: "q * c + r = n" by (simp add: q_def r_def)
  show ?thesis
  proof (cases "0 < r")
    case False
    then have "q * c = n" using qc by simp
    then have "concat result = data" using cat by (simp add: n_def)
    moreover have "generate_sharded_data count data = Inr result"
      using False c unfolding count by (simp add: generate_sharded_data_def dv md res Let_def)
    ultimately show ?thesis using len count by simp
  next
    case True
    have ne: "result \<noteq> []" using len c by auto
    have rng: "py_range (int c) \<noteq> []" using c by (simp add: py_range_def)
    have tail: "py_slice_from data (- int r) = drop (q * c) data"
    proof -
      have "r \<le> n" using qc by simp
      then have "nat (int n - int r) = q * c" using qc by linarith
      then show ?thesis
        using True \<open>r \<le> n\<close> by (simp add: py_slice_from_def clamp_index_def n_def)
    qed
    have gen: "generate_sharded_data count data
                 = Inr (butlast result @ [last result @ drop (q * c) data])"
      using True c ne rng unfolding count
      by (simp add: generate_sharded_data_def dv md res Let_def tail)
    have "concat (butlast result @ [last result @ drop (q * c) data])
            = concat (butlast result @ [last result]) @ drop (q * c) data"
      by simp
    also have "\<dots> = data" using ne cat by simp
    finally have "concat (butlast result @ [last result @ drop (q * c) data]) = data" .
    moreover have "length (butlast result @ [last result @ drop (q * c) data]) = c"
      using len ne by (cases result rule: rev_cases) simp_all
    ultimately show ?thesis using gen count by simp
  qed
qed

theorem generate_sharded_data_round_trip_witness:
  "(1::int) \<le> 5 \<and> (\<exists>result. generate_sharded_data 5 ''abc'' = Inr result
            \<and> int (length result) = 5 \<and> concat result = ''abc'')"
  using generate_sharded_data_round_trip [of 5 "''abc''"] by simp

subsection \<open>What the code does on concrete inputs\<close>

text \<open>
  Claim C3 says that \<^verbatim>\<open>build_shards(4, "AAAABBBBCCCCDDDD")\<close> on an empty catalog writes
  four primaries of length 4 and records the offsets \<open>[0,3]\<close>, \<open>[4,7]\<close>, \<open>[8,11]\<close>,
  \<open>[12,15]\<close>. The four files are as claimed. The recorded offsets are not: the code
  records \<open>[0,4]\<close>, \<open>[5,8]\<close>, \<open>[9,12]\<close>, \<open>[13,16]\<close>, because every \<^verbatim>\<open>end\<close> is the running
  length (one past the last character) while every \<^verbatim>\<open>start\<close> but the first is that
  length plus one.
\<close>

theorem build_four_ranges:
  "build_shards 4 ''AAAABBBBCCCCDDDD'' fresh =
     Inr \<lparr>mapping = [(''0'', \<lparr>start = 0, end' = 4\<rparr>), (''1'', \<lparr>start = 5, end' = 8\<rparr>),
                     (''2'', \<lparr>start = 9, end' = 12\<rparr>), (''3'', \<lparr>start = 13, end' = 16\<rparr>)],
          mapfile = Some [(''0'', \<lparr>start = 0, end' = 4\<rparr>), (''1'', \<lparr>start = 5, end' = 8\<rparr>),
                          (''2'', \<lparr>start = 9, end' = 12\<rparr>), (''3'', \<lparr>start = 13, end' = 16\<rparr>)],
          files = [(''0'', ''AAAA''), (''1'', ''BBBB''), (''2'', ''CCCC''), (''3'', ''DDDD'')],
          last_char_position = 16\<rparr>"
  by code_simp

text \<open>
  Claim C1 says that joining the primaries in ascending numeric order gives the corpus
  and that \<^verbatim>\<open>add_shard\<close> rebuilds the corpus in that order, for eleven shards and more
  too. After \<^verbatim>\<open>build_shards(11, "0123456789a")\<close> the files joined by number are the
  corpus, but \<^verbatim>\<open>get_shard_ids\<close> sorts the keys as strings, so \<^verbatim>\<open>load_data_from_shards\<close>
  reads shard 10 after shard 1, and \<^verbatim>\<open>add_shard\<close> then writes twelve shards of the
  permuted text.
\<close>

theorem eleven_shards_read_out_of_order:
  "primaries_in_id_order 11 (state_after (build_fresh 11 ''0123456789a'')) = ''0123456789a''
   \<and> take 4 (get_shard_ids (state_after (build_fresh 11 ''0123456789a'')))
        = [''0'', ''1'', ''10'', ''2'']
   \<and> load_data_from_shards (state_after (build_fresh 11 ''0123456789a'')) = Inr ''01a23456789''
   \<and> returned (and_then (build_fresh 11 ''0123456789a'') add_shard)
   \<and> primaries_in_id_order 12 (state_after (and_then (build_fresh 11 ''0123456789a'') add_shard))
        = ''01a23456789''"
  by code_simp

text \<open>
  Claim C2 says that after a successful \<^verbatim>\<open>sync_replication\<close> every replica file equals
  the file of its primary, also a replica whose file existed with other content. The
  state below is reached by \<^verbatim>\<open>build_shards(2, "abcd")\<close>, \<^verbatim>\<open>add_replication()\<close>,
  \<^verbatim>\<open>add_shard()\<close> (whose last step is a sync). A further sync returns and changes
  nothing, and replica \<^verbatim>\<open>1-1\<close> still holds \<^verbatim>\<open>cd\<close> while primary \<^verbatim>\<open>1\<close> holds \<^verbatim>\<open>b\<close>: the sync
  copies only into keys that have no file.
\<close>

theorem sync_leaves_stale_replicas:
  "and_then (and_then (build_fresh 2 ''abcd'') add_replication) add_shard = Inr stale_replicas
   \<and> sync_replication stale_replicas = Inr stale_replicas
   \<and> content_of stale_replicas ''1'' = ''b''
   \<and> content_of stale_replicas ''1-1'' = ''cd''"
  by code_simp

text \<open>
  Claim C5 says that \<^verbatim>\<open>remove_shard\<close> deletes the last primary together with its
  replica entries and files. With two shards and one level of replication the call
  removes key \<^verbatim>\<open>1\<close> and its file, and leaves the entry and the file of replica \<^verbatim>\<open>1-1\<close>;
  a second \<^verbatim>\<open>remove_shard\<close> then takes the largest number from that left-over key and
  raises \<^verbatim>\<open>KeyError\<close> on popping \<^verbatim>\<open>1\<close>.
\<close>

theorem remove_shard_leaves_replicas:
  "and_then (build_fresh 2 ''abcd'') add_replication = Inr two_replicated
   \<and> remove_shard two_replicated = Inr orphaned
   \<and> map_of (mapping orphaned) ''1-1'' = Some \<lparr>start = 3, end' = 4\<rparr>
   \<and> map_of (files orphaned) ''1-1'' = Some ''cd''
   \<and> remove_shard orphaned = Inl (KeyError, orphaned)"
  by code_simp

text \<open>
  Claim C6 says that \<^verbatim>\<open>add_shard\<close> followed by \<^verbatim>\<open>remove_shard\<close> restores the joined
  content of the primaries. From ten shards of an eleven-character corpus, both calls
  return, and the primaries joined by number are then a permutation of the corpus:
  \<^verbatim>\<open>remove_shard\<close> reads the eleven shards in string order, shard 10 after shard 1.
\<close>

theorem add_then_remove_scrambles:
  "primaries_in_id_order 10 (state_after (build_fresh 10 ''abcdefghijk'')) = ''abcdefghijk''
   \<and> returned (and_then (and_then (build_fresh 10 ''abcdefghijk'') add_shard) remove_shard)
   \<and> primaries_in_id_order 10
        (state_after (and_then (and_then (build_fresh 10 ''abcdefghijk'') add_shard) remove_shard))
       = ''abkcdefghij''"
  by code_simp

subsection \<open>Queries\<close>

text \<open>
  Claim C9 says that the answer to an unknown key lists the valid ids of both
  \<^verbatim>\<open>get_shard_ids\<close> and \<^verbatim>\<open>get_replication_ids\<close>. It lists the primaries only: with two
  replicated shards, the answer for key \<^verbatim>\<open>7\<close> names \<^verbatim>\<open>0\<close> and \<^verbatim>\<open>1\<close> and neither replica.
\<close>

theorem get_shard_data_counterexample:
  "map_of (mapping two_replicated) ''7'' = None
   \<and> get_shard_data (Some ''7'') two_replicated = InvalidShardId [''0'', ''1'']
   \<and> get_replication_ids two_replicated = [''0-1'', ''1-1'']"
  by code_simp

text \<open>
  Claim C9, amended. For a non-empty key that is not in the catalog, \<^verbatim>\<open>get_shard_data\<close>
  answers with the invalid-id message, and the ids in the message are exactly those of
  \<^verbatim>\<open>get_shard_ids\<close>, none of which is a replica id.
\<close>

theorem get_shard_data_invalid:
  assumes "key \<noteq> []" and "map_of (mapping s) key = None"
  shows "get_shard_data (Some key) s = InvalidShardId (get_shard_ids s)
         \<and> list_all (\<lambda>k. \<not> has_dash k) (get_shard_ids s)"
  using assms by (simp add: get_shard_data_def get_shard_ids_def list_all_iff)

theorem get_shard_data_invalid_witness:
  "''7'' \<noteq> [] \<and> map_of (mapping two_replicated) ''7'' = None
   \<and> get_shard_data (Some ''7'') two_replicated = InvalidShardId (get_shard_ids two_replicated)
   \<and> list_all (\<lambda>k. \<not> has_dash k) (get_shard_ids two_replicated)"
proof -
  have a: "''7'' \<noteq> []" by simp
  have b: "map_of (mapping two_replicated) ''7'' = None" by code_simp
  show ?thesis using get_shard_data_invalid [OF a b] a b by simp
qed

end
